theory Spec2Isabelle
  imports Main "HOL-Library.Word"
begin

section \<open>Go syntax trees\<close>

text \<open>
  The two checkers of \<^verbatim>\<open>src/lint/boolExprSimplify_checker.go\<close> work on expressions of
  \<^verbatim>\<open>go/ast\<close>. The tokens are those of \<^verbatim>\<open>go/token\<close> that can stand in an expression
  (\<^verbatim>\<open>token.INT\<close> is written \<open>INT_tok\<close>). The expression shapes are the six the checkers
  look at, and calls and pointer dereferences for the shapes they do not look at. Source
  positions play no part in either checker and are left out.
\<close>

datatype token =
    ILLEGAL
  | INT_tok | FLOAT | IMAG | CHAR | STRING
  | ADD | SUB | MUL | QUO | REM
  | AND | OR | XOR | SHL | SHR | AND_NOT
  | LAND | LOR | ARROW
  | EQL | LSS | GTR | NOT
  | NEQ | LEQ | GEQ

datatype expr =
    Ident string
  | BasicLit token string
  | ParenExpr expr
  | UnaryExpr token expr
  | BinaryExpr expr token expr
  | IndexExpr expr expr
  | SelectorExpr expr string
  | CallExpr expr "expr list"
  | StarExpr expr

section \<open>The libraries the checkers call\<close>

text \<open>\<^verbatim>\<open>astutil.Unparen\<close>: strips every enclosing parenthesis.\<close>

fun Unparen :: "expr \<Rightarrow> expr" where
  "Unparen (ParenExpr x) = Unparen x"
| "Unparen e = e"

text \<open>
  \<^verbatim>\<open>astutil.Apply(x, nil, post)\<close>: the children of a node are traversed first, in the order
  of the fields, and a child that \<open>post\<close> replaced stands in its parent when the parent is
  given to \<open>post\<close>. The function \<open>post\<close> of the model returns the node that stands at the
  cursor afterwards. The \<open>post\<close> of \<^verbatim>\<open>simplifyBool\<close> always returns true, so the traversal
  is never aborted.
\<close>

fun Apply :: "(expr \<Rightarrow> expr) \<Rightarrow> expr \<Rightarrow> expr" where
  "Apply post (Ident name) = post (Ident name)"
| "Apply post (BasicLit kind v) = post (BasicLit kind v)"
| "Apply post (ParenExpr x) = post (ParenExpr (Apply post x))"
| "Apply post (UnaryExpr op x) = post (UnaryExpr op (Apply post x))"
| "Apply post (BinaryExpr x op y) = post (BinaryExpr (Apply post x) op (Apply post y))"
| "Apply post (IndexExpr x i) = post (IndexExpr (Apply post x) (Apply post i))"
| "Apply post (SelectorExpr x sel) = post (SelectorExpr (Apply post x) sel)"
| "Apply post (CallExpr f args) = post (CallExpr (Apply post f) (map (Apply post) args))"
| "Apply post (StarExpr x) = post (StarExpr (Apply post x))"

text \<open>
  \<^verbatim>\<open>astequal.Expr\<close>: two expressions are equal when they have the same dynamic type and
  equal fields; a \<^verbatim>\<open>ParenExpr\<close> is only equal to a \<^verbatim>\<open>ParenExpr\<close>.
\<close>

fun astequal_Expr :: "expr \<Rightarrow> expr \<Rightarrow> bool" where
  "astequal_Expr (Ident a) (Ident b) = (a = b)"
| "astequal_Expr (BasicLit k v) (BasicLit k' v') = (k = k' \<and> v = v')"
| "astequal_Expr (ParenExpr x) (ParenExpr y) = astequal_Expr x y"
| "astequal_Expr (UnaryExpr op x) (UnaryExpr op' y) = (op = op' \<and> astequal_Expr x y)"
| "astequal_Expr (BinaryExpr x op y) (BinaryExpr x' op' y') =
     (op = op' \<and> astequal_Expr x x' \<and> astequal_Expr y y')"
| "astequal_Expr (IndexExpr x i) (IndexExpr x' i') = (astequal_Expr x x' \<and> astequal_Expr i i')"
| "astequal_Expr (SelectorExpr x sel) (SelectorExpr x' sel') = (astequal_Expr x x' \<and> sel = sel')"
| "astequal_Expr (CallExpr f args) (CallExpr f' args') =
     (astequal_Expr f f' \<and> list_all2 astequal_Expr args args')"
| "astequal_Expr (StarExpr x) (StarExpr y) = astequal_Expr x y"
| "astequal_Expr _ _ = False"

text \<open>
  \<^verbatim>\<open>astcopy.Expr\<close> returns a deep copy: a tree of new nodes with the same contents. On
  trees as values that is the same tree; the heap model below allocates the nodes.
\<close>

definition astcopy_Expr :: "expr \<Rightarrow> expr" where
  "astcopy_Expr x = x"

section \<open>The linter's context\<close>

text \<open>
  \<^verbatim>\<open>go/types\<close>: a basic type carries its \<^verbatim>\<open>BasicInfo\<close> flags, a Go \<^verbatim>\<open>int\<close>; the other
  types matter only in that they are not \<^verbatim>\<open>*types.Basic\<close>. \<^verbatim>\<open>TypeOf\<close> returns nil, here
  \<open>None\<close>, for an expression it has no type for.
\<close>

type_synonym BasicInfo = "64 word"

definition IsBoolean :: BasicInfo where "IsBoolean = 1"
definition IsInteger :: BasicInfo where "IsInteger = 2"
definition IsUnsigned :: BasicInfo where "IsUnsigned = 4"
definition IsFloat :: BasicInfo where "IsFloat = 8"
definition IsComplex :: BasicInfo where "IsComplex = 16"
definition IsString :: BasicInfo where "IsString = 32"
definition IsUntyped :: BasicInfo where "IsUntyped = 64"

datatype go_type =
    Basic BasicInfo
  | Named string go_type
  | Pointer go_type
  | Slice go_type
  | Struct

datatype arg = ExprArg expr | TokenArg token

datatype warning = Warning expr string "arg list"

record "context" =
  typesInfo :: "expr \<Rightarrow> go_type option"
  warnings :: "warning list"

definition Warn :: "context \<Rightarrow> expr \<Rightarrow> string \<Rightarrow> arg list \<Rightarrow> context" where
  "Warn c node format args = c\<lparr>warnings := warnings c @ [Warning node format args]\<rparr>"

text \<open>The type oracle that knows no type.\<close>

definition no_types :: "expr \<Rightarrow> go_type option" where
  "no_types e = None"

record checkerBase =
  ctx :: "context"

section \<open>boolExprSimplifyChecker\<close>

text \<open>
  A node the driver hands to a checker is a pointer: its address, and the tree found
  there. \<open>cause\<close> holds a pointer and is compared by address; it is nil, \<open>None\<close>, until
  the first warning.
\<close>

type_synonym addr = nat

record boolExprSimplifyChecker = checkerBase +
  cause :: "addr option"

text \<open>
  \<open>unaryNot\<close> and \<open>binaryExpr\<close> return \<open>None\<close> where the source returns its sentinel
  \<^verbatim>\<open>c.nilUnaryExpr\<close> or \<^verbatim>\<open>c.nilBinaryExpr\<close>, and the fields of the node otherwise. The
  sentinel's \<^verbatim>\<open>X\<close> is nil, and \<^verbatim>\<open>unaryNot\<close> and \<^verbatim>\<open>binaryExpr\<close> of \<^verbatim>\<open>Unparen(nil)\<close> are
  the sentinels again, which is the first \<open>None\<close> branch of the rules below.
\<close>

fun binaryExpr :: "expr \<Rightarrow> (expr \<times> token \<times> expr) option" where
  "binaryExpr (BinaryExpr x op y) = Some (x, op, y)"
| "binaryExpr _ = None"

fun unaryNot :: "expr \<Rightarrow> expr option" where
  "unaryNot (UnaryExpr op x) = (if op \<noteq> NOT then None else Some x)"
| "unaryNot _ = None"

text \<open>
  A rule returns \<open>None\<close> where the source returns false, and \<open>Some\<close> of the node that
  stands at the cursor afterwards where it returns true: the node given to
  \<^verbatim>\<open>cur.Replace\<close>, or the node itself with the fields assigned.
\<close>

definition doubleNegation :: "expr \<Rightarrow> expr option" where
  "doubleNegation n =
     (case unaryNot n of
        None \<Rightarrow> None
      | Some x1 \<Rightarrow>
          (case unaryNot (Unparen x1) of
             None \<Rightarrow> None
           | Some x2 \<Rightarrow> Some (Unparen x2)))"

definition negatedEquals :: "expr \<Rightarrow> expr option" where
  "negatedEquals n =
     (case binaryExpr n of
        None \<Rightarrow> None
      | Some (x, op, y) \<Rightarrow>
          if op \<noteq> EQL then None
          else (case (unaryNot x, unaryNot y) of
                  (Some x1, Some x2) \<Rightarrow> Some (BinaryExpr x1 op x2)
                | _ \<Rightarrow> None))"

definition invertComparison :: "expr \<Rightarrow> expr option" where
  "invertComparison n =
     (case unaryNot n of
        None \<Rightarrow> None
      | Some x \<Rightarrow>
          (case binaryExpr (Unparen x) of
             None \<Rightarrow> None
           | Some (a, op, b) \<Rightarrow>
               (case op of
                  EQL \<Rightarrow> Some (BinaryExpr a NEQ b)
                | NEQ \<Rightarrow> Some (BinaryExpr a EQL b)
                | LSS \<Rightarrow> Some (BinaryExpr a GEQ b)
                | GTR \<Rightarrow> Some (BinaryExpr a LEQ b)
                | LEQ \<Rightarrow> Some (BinaryExpr a GTR b)
                | GEQ \<Rightarrow> Some (BinaryExpr a LSS b)
                | _ \<Rightarrow> None)))"

text \<open>The function literal of \<^verbatim>\<open>simplifyBool\<close>: the first rule that matches is the only one run.\<close>

definition simplifyBool_post :: "expr \<Rightarrow> expr" where
  "simplifyBool_post n =
     (case doubleNegation n of
        Some r \<Rightarrow> r
      | None \<Rightarrow>
          (case negatedEquals n of
             Some r \<Rightarrow> r
           | None \<Rightarrow>
               (case invertComparison n of
                  Some r \<Rightarrow> r
                | None \<Rightarrow> n)))"

definition simplifyBool :: "expr \<Rightarrow> expr" where
  "simplifyBool x = Apply simplifyBool_post x"

definition simplify_message :: string where
  "simplify_message = ''can simplify `%s` to `%s`''"

definition boolExprSimplify_warn ::
  "boolExprSimplifyChecker \<Rightarrow> addr \<times> expr \<Rightarrow> expr \<Rightarrow> boolExprSimplifyChecker" where
  "boolExprSimplify_warn c cause' suggestion =
     c\<lparr>cause := Some (fst cause'),
       ctx := Warn (ctx c) (snd cause') simplify_message
                [ExprArg (snd cause'), ExprArg suggestion]\<rparr>"


definition boolExprSimplify_VisitExpr ::
  "boolExprSimplifyChecker \<Rightarrow> addr \<times> expr \<Rightarrow> boolExprSimplifyChecker" where
  "boolExprSimplify_VisitExpr c x =
     (let y = simplifyBool (astcopy_Expr (snd x))
      in if \<not> astequal_Expr (snd x) y then boolExprSimplify_warn c x y else c)"


definition new_boolExprSimplifyChecker :: boolExprSimplifyChecker where
  "new_boolExprSimplifyChecker = \<lparr>ctx = \<lparr>typesInfo = no_types, warnings = []\<rparr>, cause = None\<rparr>"

section \<open>dupSubExprChecker\<close>

record dupSubExprChecker = checkerBase +
  opSet :: "token \<rightharpoonup> bool"
  floatOpsSet :: "token \<rightharpoonup> bool"

text \<open>Reading a Go map of booleans at a key it does not hold gives false.\<close>

definition map_index :: "(token \<rightharpoonup> bool) \<Rightarrow> token \<Rightarrow> bool" where
  "map_index m k = (case m k of None \<Rightarrow> False | Some b \<Rightarrow> b)"

definition ops :: "(token \<times> bool) list" where
  "ops =
     [(LOR, False), (LAND, False), (OR, False), (AND, False), (XOR, False),
      (LSS, False), (GTR, False), (AND_NOT, False), (REM, False),
      (EQL, True), (NEQ, True), (LEQ, True), (GEQ, True), (QUO, True), (SUB, True)]"

definition dupSubExpr_Init :: "dupSubExprChecker \<Rightarrow> dupSubExprChecker" where
  "dupSubExpr_Init c =
     fold (\<lambda>(op, float) c'.
             (let c'' = c'\<lparr>opSet := (opSet c')(op \<mapsto> True)\<rparr>
              in if float then c''\<lparr>floatOpsSet := (floatOpsSet c'')(op \<mapsto> True)\<rparr> else c''))
          ops
          (c\<lparr>opSet := Map.empty, floatOpsSet := Map.empty\<rparr>)"

definition resultIsFloat :: "dupSubExprChecker \<Rightarrow> expr \<Rightarrow> bool" where
  "resultIsFloat c e =
     (case typesInfo (ctx c) e of
        Some (Basic info) \<Rightarrow> and info IsFloat \<noteq> 0
      | _ \<Rightarrow> False)"

fun isSafe :: "expr \<Rightarrow> bool" where
  "isSafe (BinaryExpr x op y) = (isSafe x \<and> isSafe y)"
| "isSafe (UnaryExpr op x) = (op \<noteq> ARROW \<and> isSafe x)"
| "isSafe (BasicLit k v) = True"
| "isSafe (Ident name) = True"
| "isSafe (IndexExpr x i) = (isSafe x \<and> isSafe i)"
| "isSafe (SelectorExpr x sel) = isSafe x"
| "isSafe (ParenExpr x) = isSafe x"
| "isSafe _ = False"

definition dup_message :: string where
  "dup_message = ''suspicious identical LHS and RHS for `%s` operator''"

definition dupSubExpr_warn :: "dupSubExprChecker \<Rightarrow> expr \<Rightarrow> token \<Rightarrow> dupSubExprChecker" where
  "dupSubExpr_warn c cause' op =
     c\<lparr>ctx := Warn (ctx c) cause' dup_message [TokenArg op]\<rparr>"

text \<open>\<open>checkBinaryExpr\<close> takes the binary expression as its three fields.\<close>

definition checkBinaryExpr ::
  "dupSubExprChecker \<Rightarrow> expr \<Rightarrow> token \<Rightarrow> expr \<Rightarrow> dupSubExprChecker" where
  "checkBinaryExpr c x op y =
     (if \<not> map_index (opSet c) op then c
      else if resultIsFloat c x \<and> map_index (floatOpsSet c) op then c
      else if isSafe (BinaryExpr x op y) \<and> map_index (opSet c) op \<and> astequal_Expr x y
           then dupSubExpr_warn c (BinaryExpr x op y) op
      else c)"

definition dupSubExpr_VisitExpr :: "dupSubExprChecker \<Rightarrow> expr \<Rightarrow> dupSubExprChecker" where
  "dupSubExpr_VisitExpr c e =
     (case e of BinaryExpr x op y \<Rightarrow> checkBinaryExpr c x op y | _ \<Rightarrow> c)"

text \<open>A checker as the driver starts it: no warning yet, over a given type oracle.\<close>

definition new_dupSubExprChecker :: "(expr \<Rightarrow> go_type option) \<Rightarrow> dupSubExprChecker" where
  "new_dupSubExprChecker info =
     dupSubExpr_Init
       \<lparr>ctx = \<lparr>typesInfo = info, warnings = []\<rparr>, opSet = Map.empty, floatOpsSet = Map.empty\<rparr>"

section \<open>The specification's words\<close>

text \<open>
  The whitelist of the Safety Classifier as the specification lists it: literals and
  identifiers; binary nodes with both operands safe; unary nodes whose operator is not the
  channel receive and whose operand is safe; index nodes with safe base and index;
  selector and parenthesized nodes with a safe inner node.
\<close>

inductive safe_shape :: "expr \<Rightarrow> bool" where
  safe_literal: "safe_shape (BasicLit k v)"
| safe_identifier: "safe_shape (Ident name)"
| safe_binary: "safe_shape x \<Longrightarrow> safe_shape y \<Longrightarrow> safe_shape (BinaryExpr x op y)"
| safe_unary: "op \<noteq> ARROW \<Longrightarrow> safe_shape x \<Longrightarrow> safe_shape (UnaryExpr op x)"
| safe_index: "safe_shape x \<Longrightarrow> safe_shape i \<Longrightarrow> safe_shape (IndexExpr x i)"
| safe_selector: "safe_shape x \<Longrightarrow> safe_shape (SelectorExpr x sel)"
| safe_paren: "safe_shape x \<Longrightarrow> safe_shape (ParenExpr x)"

code_pred safe_shape .

text \<open>
  The specification's semantic equality is transparent to parentheses: two expressions
  are equal when they are once every parenthesis is taken away.
\<close>

fun strip_parens :: "expr \<Rightarrow> expr" where
  "strip_parens (Ident name) = Ident name"
| "strip_parens (BasicLit k v) = BasicLit k v"
| "strip_parens (ParenExpr x) = strip_parens x"
| "strip_parens (UnaryExpr op x) = UnaryExpr op (strip_parens x)"
| "strip_parens (BinaryExpr x op y) = BinaryExpr (strip_parens x) op (strip_parens y)"
| "strip_parens (IndexExpr x i) = IndexExpr (strip_parens x) (strip_parens i)"
| "strip_parens (SelectorExpr x sel) = SelectorExpr (strip_parens x) sel"
| "strip_parens (CallExpr f args) = CallExpr (strip_parens f) (map strip_parens args)"
| "strip_parens (StarExpr x) = StarExpr (strip_parens x)"

definition semantic_equal :: "expr \<Rightarrow> expr \<Rightarrow> bool" where
  "semantic_equal a b = (strip_parens a = strip_parens b)"

text \<open>The table of the specification's third rule: each comparison and its inverse.\<close>

fun inverted :: "token \<Rightarrow> token option" where
  "inverted EQL = Some NEQ"
| "inverted NEQ = Some EQL"
| "inverted LSS = Some GEQ"
| "inverted GTR = Some LEQ"
| "inverted LEQ = Some GTR"
| "inverted GEQ = Some LSS"
| "inverted _ = None"

section \<open>Facts about the libraries\<close>

lemma astequal_Expr_refl: "astequal_Expr x x"
  by (induction x) (auto simp: list_all2_same)

lemma astequal_Expr_eq: "astequal_Expr x y \<Longrightarrow> x = y"
proof (induction x y rule: astequal_Expr.induct)
  case (8 f args f' args')
  from "8.prems" have f: "astequal_Expr f f'" and l: "list_all2 astequal_Expr args args'"
    by simp_all
  from l "8.IH"(2) have "args = args'"
    by (induction args args' rule: list_all2_induct) auto
  with f "8.IH"(1) show ?case by simp
qed auto

lemma astequal_Expr_iff: "astequal_Expr x y = (x = y)"
  using astequal_Expr_eq astequal_Expr_refl by blast

section \<open>boolExprSimplifyChecker: the rules and the traversal\<close>

lemma unaryNot_Some: "unaryNot n = Some x \<longleftrightarrow> n = UnaryExpr NOT x"
  by (cases n) auto

lemma unaryNot_None: "unaryNot n = None \<longleftrightarrow> (\<forall>x. n \<noteq> UnaryExpr NOT x)"
  by (cases n) auto

lemma binaryExpr_Some: "binaryExpr n = Some t \<longleftrightarrow> n = BinaryExpr (fst t) (fst (snd t)) (snd (snd t))"
  by (cases n) auto

lemma doubleNegation_iff:
  "doubleNegation n = Some r \<longleftrightarrow>
     (\<exists>e z. n = UnaryExpr NOT e \<and> Unparen e = UnaryExpr NOT z \<and> r = Unparen z)"
  by (auto simp: doubleNegation_def unaryNot_Some split: option.splits)

lemma negatedEquals_iff:
  "negatedEquals n = Some r \<longleftrightarrow>
     (\<exists>a b. n = BinaryExpr (UnaryExpr NOT a) EQL (UnaryExpr NOT b) \<and> r = BinaryExpr a EQL b)"
  by (cases n) (auto simp: negatedEquals_def unaryNot_Some split: option.splits)

lemma invertComparison_iff:
  "invertComparison n = Some r \<longleftrightarrow>
     (\<exists>e a op b op'. n = UnaryExpr NOT e \<and> Unparen e = BinaryExpr a op b
        \<and> inverted op = Some op' \<and> r = BinaryExpr a op' b)"
proof -
  have inv: "(case op of EQL \<Rightarrow> Some (BinaryExpr a NEQ b)
                | NEQ \<Rightarrow> Some (BinaryExpr a EQL b)
                | LSS \<Rightarrow> Some (BinaryExpr a GEQ b)
                | GTR \<Rightarrow> Some (BinaryExpr a LEQ b)
                | LEQ \<Rightarrow> Some (BinaryExpr a GTR b)
                | GEQ \<Rightarrow> Some (BinaryExpr a LSS b)
                | _ \<Rightarrow> None) = map_option (\<lambda>op'. BinaryExpr a op' b) (inverted op)" for a op b
    by (cases op) simp_all
  show ?thesis
    unfolding invertComparison_def inv
    by (cases n) (auto simp: binaryExpr_Some split: option.splits)
qed

lemma simplifyBool_simps:
  "simplifyBool (Ident name) = simplifyBool_post (Ident name)"
  "simplifyBool (BasicLit k v) = simplifyBool_post (BasicLit k v)"
  "simplifyBool (ParenExpr x) = simplifyBool_post (ParenExpr (simplifyBool x))"
  "simplifyBool (UnaryExpr op x) = simplifyBool_post (UnaryExpr op (simplifyBool x))"
  "simplifyBool (BinaryExpr x op y) = simplifyBool_post (BinaryExpr (simplifyBool x) op (simplifyBool y))"
  "simplifyBool (IndexExpr x i) = simplifyBool_post (IndexExpr (simplifyBool x) (simplifyBool i))"
  "simplifyBool (SelectorExpr x sel) = simplifyBool_post (SelectorExpr (simplifyBool x) sel)"
  "simplifyBool (CallExpr f args) = simplifyBool_post (CallExpr (simplifyBool f) (map simplifyBool args))"
  "simplifyBool (StarExpr x) = simplifyBool_post (StarExpr (simplifyBool x))"
  by (simp_all add: simplifyBool_def cong: map_cong)

lemma post_other:
  "simplifyBool_post (Ident name) = Ident name"
  "simplifyBool_post (BasicLit k v) = BasicLit k v"
  "simplifyBool_post (ParenExpr x) = ParenExpr x"
  "simplifyBool_post (IndexExpr x i) = IndexExpr x i"
  "simplifyBool_post (SelectorExpr x sel) = SelectorExpr x sel"
  "simplifyBool_post (CallExpr f args) = CallExpr f args"
  "simplifyBool_post (StarExpr x) = StarExpr x"
  "op \<noteq> NOT \<Longrightarrow> simplifyBool_post (UnaryExpr op x) = UnaryExpr op x"
  by (simp_all add: simplifyBool_post_def doubleNegation_def negatedEquals_def invertComparison_def)

lemma post_binary:
  "simplifyBool_post (BinaryExpr l op r) =
     (case (unaryNot l, unaryNot r) of
        (Some a, Some b) \<Rightarrow> if op = EQL then BinaryExpr a EQL b else BinaryExpr l op r
      | _ \<Rightarrow> BinaryExpr l op r)"
  by (simp add: simplifyBool_post_def doubleNegation_def negatedEquals_def invertComparison_def
      split: option.splits)

lemma invertComparison_eq:
  "invertComparison n =
     (case unaryNot n of
        None \<Rightarrow> None
      | Some x \<Rightarrow>
          (case binaryExpr (Unparen x) of
             None \<Rightarrow> None
           | Some (a, op, b) \<Rightarrow> map_option (\<lambda>op'. BinaryExpr a op' b) (inverted op)))"
proof -
  have inv: "(case op of EQL \<Rightarrow> Some (BinaryExpr a NEQ b)
                | NEQ \<Rightarrow> Some (BinaryExpr a EQL b)
                | LSS \<Rightarrow> Some (BinaryExpr a GEQ b)
                | GTR \<Rightarrow> Some (BinaryExpr a LEQ b)
                | LEQ \<Rightarrow> Some (BinaryExpr a GTR b)
                | GEQ \<Rightarrow> Some (BinaryExpr a LSS b)
                | _ \<Rightarrow> None) = map_option (\<lambda>op'. BinaryExpr a op' b) (inverted op)" for a op b
    by (cases op) simp_all
  show ?thesis
    unfolding invertComparison_def inv ..
qed

lemma post_not:
  "simplifyBool_post (UnaryExpr NOT e) =
     (case unaryNot (Unparen e) of
        Some z \<Rightarrow> Unparen z
      | None \<Rightarrow>
         (case binaryExpr (Unparen e) of
            Some (a, op, b) \<Rightarrow>
              (case inverted op of Some op' \<Rightarrow> BinaryExpr a op' b | None \<Rightarrow> UnaryExpr NOT e)
          | None \<Rightarrow> UnaryExpr NOT e))"
  by (simp add: simplifyBool_post_def doubleNegation_def negatedEquals_def invertComparison_eq
      split: option.splits)

lemma Unparen_parens: "Unparen ((ParenExpr ^^ k) e) = Unparen e"
  by (induction k) simp_all

lemma simplifyBool_parens: "simplifyBool ((ParenExpr ^^ k) e) = (ParenExpr ^^ k) (simplifyBool e)"
  by (induction k) (simp_all add: simplifyBool_simps post_other)

lemma Unparen_idem: "Unparen (Unparen e) = Unparen e"
  by (induction e rule: Unparen.induct) simp_all

lemma Unparen_not_paren: "Unparen e \<noteq> ParenExpr x"
  by (induction e rule: Unparen.induct) simp_all

lemma inverted_inverted: "inverted op = Some op' \<Longrightarrow> inverted op' = Some op"
  by (cases op) auto

lemma simplifyBool_double_negation:
  assumes "unaryNot (Unparen (simplifyBool x)) = None"
  shows "simplifyBool (UnaryExpr NOT ((ParenExpr ^^ j) (UnaryExpr NOT ((ParenExpr ^^ k) x))))
           = Unparen (simplifyBool x)"
proof -
  let ?u = "Unparen (simplifyBool x)"
  let ?inner = "simplifyBool_post (UnaryExpr NOT ((ParenExpr ^^ k) (simplifyBool x)))"
  have whole: "simplifyBool (UnaryExpr NOT ((ParenExpr ^^ j) (UnaryExpr NOT ((ParenExpr ^^ k) x))))
      = simplifyBool_post (UnaryExpr NOT ((ParenExpr ^^ j) ?inner))"
    by (simp add: simplifyBool_simps simplifyBool_parens)
  show ?thesis
  proof (cases "binaryExpr ?u")
    case None
    then have "?inner = UnaryExpr NOT ((ParenExpr ^^ k) (simplifyBool x))"
      using assms by (simp add: post_not Unparen_parens)
    then show ?thesis
      unfolding whole by (simp add: post_not Unparen_parens)
  next
    case (Some t)
    then obtain a op b where u: "?u = BinaryExpr a op b"
      by (auto simp: binaryExpr_Some)
    show ?thesis
    proof (cases "inverted op")
      case None
      then have "?inner = UnaryExpr NOT ((ParenExpr ^^ k) (simplifyBool x))"
        using u by (simp add: post_not Unparen_parens)
      then show ?thesis
        unfolding whole by (simp add: post_not Unparen_parens)
    next
      case (Some op')
      then have "?inner = BinaryExpr a op' b"
        using u by (simp add: post_not Unparen_parens)
      then show ?thesis
        unfolding whole using u inverted_inverted [OF Some]
        by (simp add: post_not Unparen_parens)
    qed
  qed
qed

lemma VisitExpr_warnings:
  "warnings (ctx (boolExprSimplify_VisitExpr c (p, x))) =
     warnings (ctx c) @
       (if \<not> astequal_Expr x (simplifyBool x)
        then [Warning x simplify_message [ExprArg x, ExprArg (simplifyBool x)]]
        else [])"
  by (simp add: boolExprSimplify_VisitExpr_def boolExprSimplify_warn_def Warn_def astcopy_Expr_def
      simplify_message_def Let_def)




section \<open>boolExprSimplifyChecker: the claims\<close>

text \<open>
  C2, as the code has it. \<open>doubleNegation\<close> fires at a node exactly when the node is a
  logical not whose operand, without its parentheses, is a logical not, and it puts the
  inner operand there without its enclosing parentheses. The traversal is bottom-up, so
  the operand is simplified first: with any number of parentheses around the inner
  negation and around \<open>x\<close>, \<^verbatim>\<open>simplify(!(!(x)))\<close> is the simplified \<open>x\<close> without its
  enclosing parentheses, as long as that is not a logical not itself. It is \<open>x\<close> when \<open>x\<close>
  is left alone by \<open>simplifyBool\<close>, is not parenthesized and is not a logical not.
\<close>

theorem doubleNegation_unparen:
  "(doubleNegation n = Some r) =
     (\<exists>e z. n = UnaryExpr NOT e \<and> Unparen e = UnaryExpr NOT z \<and> r = Unparen z)
   \<and> (unaryNot (Unparen (simplifyBool x)) = None \<longrightarrow>
        simplifyBool (UnaryExpr NOT ((ParenExpr ^^ j) (UnaryExpr NOT ((ParenExpr ^^ k) x))))
          = Unparen (simplifyBool x))
   \<and> (simplifyBool x = x \<and> Unparen x = x \<and> unaryNot x = None \<longrightarrow>
        simplifyBool (UnaryExpr NOT (ParenExpr (UnaryExpr NOT (ParenExpr x)))) = x)"
proof -
  have paren: "UnaryExpr NOT (ParenExpr (UnaryExpr NOT (ParenExpr x)))
      = UnaryExpr NOT ((ParenExpr ^^ 1) (UnaryExpr NOT ((ParenExpr ^^ 1) x)))"
    by simp
  show ?thesis
    unfolding paren
    using simplifyBool_double_negation [of x] doubleNegation_iff [of n r]
    by (metis)
qed

theorem doubleNegation_unparen_witness:
  "doubleNegation (UnaryExpr NOT (ParenExpr (UnaryExpr NOT (ParenExpr (Ident ''a''))))) = Some (Ident ''a'')
   \<and> simplifyBool (UnaryExpr NOT (UnaryExpr NOT (ParenExpr (BinaryExpr (Ident ''a'') ADD (Ident ''b'')))))
       = BinaryExpr (Ident ''a'') ADD (Ident ''b'')
   \<and> simplifyBool (UnaryExpr NOT (ParenExpr (UnaryExpr NOT (ParenExpr (Ident ''a''))))) = Ident ''a''"
proof -
  let ?ab = "ParenExpr (BinaryExpr (Ident ''a'') ADD (Ident ''b''))"
  have h1: "unaryNot (Unparen (simplifyBool ?ab)) = None"
    by (simp add: simplifyBool_simps post_other post_binary)
  have h2: "simplifyBool (Ident ''a'') = Ident ''a'' \<and> Unparen (Ident ''a'') = Ident ''a''
      \<and> unaryNot (Ident ''a'') = None"
    by (simp add: simplifyBool_simps post_other)
  have u: "Unparen (simplifyBool ?ab) = BinaryExpr (Ident ''a'') ADD (Ident ''b'')"
    by (simp add: simplifyBool_simps post_other post_binary)
  show ?thesis
    using h1 h2 u
      doubleNegation_unparen
        [of "UnaryExpr NOT (ParenExpr (UnaryExpr NOT (ParenExpr (Ident ''a''))))" "Ident ''a''"
            ?ab 0 0]
      doubleNegation_unparen
        [of "UnaryExpr NOT (ParenExpr (UnaryExpr NOT (ParenExpr (Ident ''a''))))" "Ident ''a''"
            "Ident ''a''" 0 0]
    by simp
qed

text \<open>
  C2, as the specification states it, fails for a parenthesized \<open>x\<close>: \<^verbatim>\<open>!(!((a)))\<close> becomes
  \<^verbatim>\<open>a\<close>, not \<^verbatim>\<open>(a)\<close>. It fails for a negation too: \<^verbatim>\<open>!(!(!a))\<close> becomes \<^verbatim>\<open>!(a)\<close>, not \<^verbatim>\<open>!a\<close>.
\<close>

theorem doubleNegation_counterexample:
  "simplifyBool (UnaryExpr NOT (ParenExpr (UnaryExpr NOT (ParenExpr (ParenExpr (Ident ''a''))))))
     = Ident ''a''
   \<and> Ident ''a'' \<noteq> ParenExpr (Ident ''a'')
   \<and> simplifyBool (UnaryExpr NOT (ParenExpr (UnaryExpr NOT (ParenExpr (UnaryExpr NOT (Ident ''a''))))))
     = UnaryExpr NOT (ParenExpr (Ident ''a''))
   \<and> UnaryExpr NOT (ParenExpr (Ident ''a'')) \<noteq> UnaryExpr NOT (Ident ''a'')"
  by (simp add: simplifyBool_simps post_other post_not)

text \<open>
  C3, as the code has it. \<open>negatedEquals\<close> fires exactly on a \<^verbatim>\<open>==\<close> node whose two operands
  are themselves logical nots, with no parenthesis around the negations, and gives \<^verbatim>\<open>==\<close>
  of the two operands of the negations; at such a node the engine runs it. The engine
  leaves a \<^verbatim>\<open>!=\<close> node as it is. For negations \<^verbatim>\<open>!a\<close> and \<^verbatim>\<open>!b\<close> that \<open>simplifyBool\<close> leaves
  alone, \<^verbatim>\<open>simplify(!a == !b)\<close> is \<^verbatim>\<open>a == b\<close> and \<^verbatim>\<open>simplify(!a != !b)\<close> is unchanged.
\<close>

theorem negatedEquals_direct:
  "(negatedEquals n = Some r) =
     (\<exists>a b. n = BinaryExpr (UnaryExpr NOT a) EQL (UnaryExpr NOT b) \<and> r = BinaryExpr a EQL b)
   \<and> simplifyBool_post (BinaryExpr (UnaryExpr NOT a) EQL (UnaryExpr NOT b)) = BinaryExpr a EQL b
   \<and> simplifyBool_post (BinaryExpr l NEQ r') = BinaryExpr l NEQ r'
   \<and> (simplifyBool (UnaryExpr NOT a) = UnaryExpr NOT a \<and> simplifyBool (UnaryExpr NOT b) = UnaryExpr NOT b \<longrightarrow>
        simplifyBool (BinaryExpr (UnaryExpr NOT a) EQL (UnaryExpr NOT b)) = BinaryExpr a EQL b
        \<and> simplifyBool (BinaryExpr (UnaryExpr NOT a) NEQ (UnaryExpr NOT b))
            = BinaryExpr (UnaryExpr NOT a) NEQ (UnaryExpr NOT b))"
  using negatedEquals_iff [of n r]
  by (simp add: post_binary simplifyBool_simps(5) split: option.splits)

theorem negatedEquals_direct_witness:
  "negatedEquals (BinaryExpr (UnaryExpr NOT (ParenExpr (Ident ''x''))) EQL (UnaryExpr NOT (ParenExpr (Ident ''y''))))
     = Some (BinaryExpr (ParenExpr (Ident ''x'')) EQL (ParenExpr (Ident ''y'')))
   \<and> simplifyBool (BinaryExpr (UnaryExpr NOT (Ident ''a'')) EQL (UnaryExpr NOT (Ident ''b'')))
     = BinaryExpr (Ident ''a'') EQL (Ident ''b'')
   \<and> simplifyBool (BinaryExpr (UnaryExpr NOT (Ident ''a'')) NEQ (UnaryExpr NOT (Ident ''b'')))
     = BinaryExpr (UnaryExpr NOT (Ident ''a'')) NEQ (UnaryExpr NOT (Ident ''b''))"
proof -
  have h: "simplifyBool (UnaryExpr NOT (Ident ''a'')) = UnaryExpr NOT (Ident ''a'')
      \<and> simplifyBool (UnaryExpr NOT (Ident ''b'')) = UnaryExpr NOT (Ident ''b'')"
    by (simp add: simplifyBool_simps post_other post_not)
  show ?thesis
    using h
      negatedEquals_direct
        [of "BinaryExpr (UnaryExpr NOT (ParenExpr (Ident ''x''))) EQL (UnaryExpr NOT (ParenExpr (Ident ''y'')))"
            "BinaryExpr (ParenExpr (Ident ''x'')) EQL (ParenExpr (Ident ''y''))"
            "Ident ''a''" "Ident ''b''" "Ident ''l''" "Ident ''r''"]
    by simp
qed

text \<open>
  C3, as the specification states it, fails on \<^verbatim>\<open>(!a) == (!b)\<close>: both operands are logical
  nots once their parentheses are unwrapped, the rule does not fire and the expression
  is left as it is.
\<close>

theorem negatedEquals_paren_counterexample:
  "Unparen (ParenExpr (UnaryExpr NOT (Ident ''a''))) = UnaryExpr NOT (Ident ''a'')
   \<and> Unparen (ParenExpr (UnaryExpr NOT (Ident ''b''))) = UnaryExpr NOT (Ident ''b'')
   \<and> negatedEquals (BinaryExpr (ParenExpr (UnaryExpr NOT (Ident ''a''))) EQL
                                (ParenExpr (UnaryExpr NOT (Ident ''b'')))) = None
   \<and> simplifyBool (BinaryExpr (ParenExpr (UnaryExpr NOT (Ident ''a''))) EQL
                               (ParenExpr (UnaryExpr NOT (Ident ''b''))))
     = BinaryExpr (ParenExpr (UnaryExpr NOT (Ident ''a''))) EQL (ParenExpr (UnaryExpr NOT (Ident ''b'')))"
  by (simp add: simplifyBool_simps post_other post_not post_binary negatedEquals_def)

text \<open>
  C4. At a logical not whose operand, without its parentheses, is a binary expression
  \<^verbatim>\<open>a op b\<close>, the rule \<open>invertComparison\<close> and the engine give \<^verbatim>\<open>a op' b\<close> when the table
  maps \<open>op\<close> to \<open>op'\<close>, and leave the node untouched for every other operator. The table
  is that of the specification and holds the six comparisons only; so
  \<^verbatim>\<open>simplify(!(x op y))\<close> is \<^verbatim>\<open>x op' y\<close>.
\<close>

theorem invertComparison_table:
  "(Unparen e = BinaryExpr a op b \<longrightarrow>
      invertComparison (UnaryExpr NOT e) = map_option (\<lambda>op'. BinaryExpr a op' b) (inverted op)
      \<and> simplifyBool_post (UnaryExpr NOT e) =
          (case inverted op of Some op' \<Rightarrow> BinaryExpr a op' b | None \<Rightarrow> UnaryExpr NOT e))
   \<and> (inverted op = Some op' \<longrightarrow>
        op \<in> {EQL, NEQ, LSS, GTR, LEQ, GEQ}
        \<and> simplifyBool (UnaryExpr NOT (ParenExpr (BinaryExpr (Ident x) op (Ident y))))
            = BinaryExpr (Ident x) op' (Ident y))
   \<and> map inverted [EQL, NEQ, LSS, GTR, LEQ, GEQ] = map Some [NEQ, EQL, GEQ, LEQ, GTR, LSS]"
proof -
  have "op \<in> {EQL, NEQ, LSS, GTR, LEQ, GEQ}" if "inverted op = Some op'"
    using that by (cases op) simp_all
  then show ?thesis
    by (simp add: invertComparison_eq post_not simplifyBool_simps post_other post_binary)
qed

theorem invertComparison_table_witness:
  "invertComparison (UnaryExpr NOT (ParenExpr (BinaryExpr (Ident ''elapsed'') GEQ (Ident ''expectElapsedMin''))))
     = Some (BinaryExpr (Ident ''elapsed'') LSS (Ident ''expectElapsedMin''))
   \<and> simplifyBool_post (UnaryExpr NOT (ParenExpr (BinaryExpr (Ident ''a'') ADD (Ident ''b''))))
     = UnaryExpr NOT (ParenExpr (BinaryExpr (Ident ''a'') ADD (Ident ''b'')))
   \<and> simplifyBool (UnaryExpr NOT (ParenExpr (BinaryExpr (Ident ''a'') LEQ (Ident ''b''))))
     = BinaryExpr (Ident ''a'') GTR (Ident ''b'')"
  using
    invertComparison_table
      [of "ParenExpr (BinaryExpr (Ident ''elapsed'') GEQ (Ident ''expectElapsedMin''))"
          "Ident ''elapsed''" GEQ "Ident ''expectElapsedMin''" LSS "''a''" "''b''"]
    invertComparison_table
      [of "ParenExpr (BinaryExpr (Ident ''a'') ADD (Ident ''b''))"
          "Ident ''a''" ADD "Ident ''b''" LSS "''a''" "''b''"]
    invertComparison_table
      [of "ParenExpr (BinaryExpr (Ident ''a'') LEQ (Ident ''b''))"
          "Ident ''a''" LEQ "Ident ''b''" GTR "''a''" "''b''"]
  by simp

lemma paren_neq: "ParenExpr e \<noteq> e"
  by (induction e) simp_all

text \<open>
  C5. \<open>VisitExpr\<close> adds one warning, which carries the original and the result of one
  pass of \<open>simplifyBool\<close>, exactly when \<^verbatim>\<open>astequal.Expr\<close> finds the two different, and no
  warning otherwise. \<^verbatim>\<open>astequal.Expr\<close> is equality of the trees, parentheses included.
  The suggestion is the result of the one pass even where a second pass would change it
  again: the witness has \<^verbatim>\<open>!(!a != !b)\<close>, reported with \<^verbatim>\<open>!a == !b\<close>.
\<close>

theorem VisitExpr_warns_iff_changed:
  "warnings (ctx (boolExprSimplify_VisitExpr c (p, x))) =
     warnings (ctx c) @
       (if \<not> astequal_Expr x (simplifyBool x)
        then [Warning x simplify_message [ExprArg x, ExprArg (simplifyBool x)]]
        else [])
   \<and> astequal_Expr x y = (x = y)
   \<and> \<not> astequal_Expr (ParenExpr x) x"
  by (simp add: VisitExpr_warnings astequal_Expr_iff paren_neq)

theorem VisitExpr_warns_iff_changed_witness:
  "warnings (ctx (boolExprSimplify_VisitExpr new_boolExprSimplifyChecker
      (0, UnaryExpr NOT (ParenExpr
            (BinaryExpr (UnaryExpr NOT (Ident ''a'')) NEQ (UnaryExpr NOT (Ident ''b'')))))))
     = [Warning
          (UnaryExpr NOT (ParenExpr
            (BinaryExpr (UnaryExpr NOT (Ident ''a'')) NEQ (UnaryExpr NOT (Ident ''b'')))))
          simplify_message
          [ExprArg (UnaryExpr NOT (ParenExpr
             (BinaryExpr (UnaryExpr NOT (Ident ''a'')) NEQ (UnaryExpr NOT (Ident ''b''))))),
           ExprArg (BinaryExpr (UnaryExpr NOT (Ident ''a'')) EQL (UnaryExpr NOT (Ident ''b'')))]]
   \<and> simplifyBool (BinaryExpr (UnaryExpr NOT (Ident ''a'')) EQL (UnaryExpr NOT (Ident ''b'')))
     = BinaryExpr (Ident ''a'') EQL (Ident ''b'')
   \<and> warnings (ctx (boolExprSimplify_VisitExpr new_boolExprSimplifyChecker
        (1, BinaryExpr (Ident ''a'') EQL (Ident ''b'')))) = []"
  using
    VisitExpr_warns_iff_changed
      [of new_boolExprSimplifyChecker 0
          "UnaryExpr NOT (ParenExpr
            (BinaryExpr (UnaryExpr NOT (Ident ''a'')) NEQ (UnaryExpr NOT (Ident ''b''))))"
          "Ident ''a''"]
    VisitExpr_warns_iff_changed
      [of new_boolExprSimplifyChecker 1 "BinaryExpr (Ident ''a'') EQL (Ident ''b'')" "Ident ''a''"]
  by (simp add: simplifyBool_simps post_other post_not post_binary new_boolExprSimplifyChecker_def)



section \<open>dupSubExprChecker: the operator sets\<close>

lemma ctx_dupSubExpr_Init: "ctx (dupSubExpr_Init c) = ctx c"
  by (simp add: dupSubExpr_Init_def ops_def)

lemma opSet_Init:
  "map_index (opSet (dupSubExpr_Init c)) op =
     (op \<in> {LOR, LAND, OR, AND, XOR, LSS, GTR, AND_NOT, REM, EQL, NEQ, LEQ, GEQ, QUO, SUB})"
  by (cases op) (simp_all add: dupSubExpr_Init_def ops_def map_index_def)

lemma floatOpsSet_Init:
  "map_index (floatOpsSet (dupSubExpr_Init c)) op = (op \<in> {EQL, NEQ, LEQ, GEQ, QUO, SUB})"
  by (cases op) (simp_all add: dupSubExpr_Init_def ops_def map_index_def)

lemma resultIsFloat_Init: "resultIsFloat (dupSubExpr_Init c) e = resultIsFloat c e"
  by (simp add: resultIsFloat_def ctx_dupSubExpr_Init)

lemma warnings_checkBinaryExpr:
  "warnings (ctx (checkBinaryExpr c x op y)) =
     warnings (ctx c) @
       (if map_index (opSet c) op \<and> \<not> (resultIsFloat c x \<and> map_index (floatOpsSet c) op)
           \<and> x = y \<and> isSafe x
        then [Warning (BinaryExpr x op y) dup_message [TokenArg op]]
        else [])"
  by (auto simp: checkBinaryExpr_def dupSubExpr_warn_def Warn_def astequal_Expr_iff
      dup_message_def)

lemma warnings_checkBinaryExpr_Init:
  "warnings (ctx (checkBinaryExpr (dupSubExpr_Init c) x op y)) =
     warnings (ctx c) @
       (if op \<in> {LOR, LAND, OR, AND, XOR, LSS, GTR, AND_NOT, REM, EQL, NEQ, LEQ, GEQ, QUO, SUB}
           \<and> \<not> (resultIsFloat c x \<and> op \<in> {EQL, NEQ, LEQ, GEQ, QUO, SUB})
           \<and> x = y \<and> isSafe x
        then [Warning (BinaryExpr x op y) dup_message [TokenArg op]]
        else [])"
  unfolding warnings_checkBinaryExpr opSet_Init floatOpsSet_Init resultIsFloat_Init
    ctx_dupSubExpr_Init
  by simp

lemma warnings_new_dupSubExprChecker: "warnings (ctx (new_dupSubExprChecker info)) = []"
  by (simp add: new_dupSubExprChecker_def ctx_dupSubExpr_Init)

lemma typesInfo_new_dupSubExprChecker: "typesInfo (ctx (new_dupSubExprChecker info)) = info"
  by (simp add: new_dupSubExprChecker_def ctx_dupSubExpr_Init)

lemma isSafe_safe_shape: "isSafe e = safe_shape e"
proof
  show "isSafe e \<Longrightarrow> safe_shape e"
    by (induction e rule: isSafe.induct) (auto intro: safe_shape.intros)
  show "safe_shape e \<Longrightarrow> isSafe e"
    by (induction e rule: safe_shape.induct) auto
qed

section \<open>dupSubExprChecker: the claims\<close>

text \<open>
  C1, as the code has it. For a checker that \<open>Init\<close> has set up, \<open>checkBinaryExpr\<close> adds
  exactly one warning when the operator is one of the fifteen of the detection set, the
  float exception does not apply, the two operands are equal under \<^verbatim>\<open>astequal.Expr\<close>,
  which is equality of the trees with their parentheses, and the operand is safe; it adds
  no warning otherwise.
\<close>

theorem checkBinaryExpr_decision:
  "warnings (ctx (checkBinaryExpr (dupSubExpr_Init c) x op y)) =
     warnings (ctx c) @
       (if op \<in> {LOR, LAND, OR, AND, XOR, LSS, GTR, AND_NOT, REM, EQL, NEQ, LEQ, GEQ, QUO, SUB}
           \<and> \<not> (resultIsFloat c x \<and> op \<in> {EQL, NEQ, LEQ, GEQ, QUO, SUB})
           \<and> astequal_Expr x y \<and> isSafe x
        then [Warning (BinaryExpr x op y) dup_message [TokenArg op]]
        else [])"
  by (simp add: warnings_checkBinaryExpr_Init astequal_Expr_iff)

theorem checkBinaryExpr_decision_witness:
  "warnings (ctx (checkBinaryExpr (new_dupSubExprChecker no_types) (Ident ''x'') LSS (Ident ''x'')))
     = [Warning (BinaryExpr (Ident ''x'') LSS (Ident ''x'')) dup_message [TokenArg LSS]]"
  unfolding new_dupSubExprChecker_def
  using checkBinaryExpr_decision
    [of "\<lparr>ctx = \<lparr>typesInfo = no_types, warnings = []\<rparr>, opSet = Map.empty, floatOpsSet = Map.empty\<rparr>"
        "Ident ''x''" LSS "Ident ''x''"]
  by (simp add: resultIsFloat_def no_types_def)

text \<open>
  C1, as the specification states it, fails on \<^verbatim>\<open>(x) < x\<close>: the operator is in the
  detection set, the float exception does not apply, the operands are equal once the
  parentheses are taken away and both are safe, and no warning is emitted.
\<close>

theorem checkBinaryExpr_paren_counterexample:
  "map_index (opSet (new_dupSubExprChecker no_types)) LSS
   \<and> \<not> (resultIsFloat (new_dupSubExprChecker no_types) (ParenExpr (Ident ''x''))
          \<and> map_index (floatOpsSet (new_dupSubExprChecker no_types)) LSS)
   \<and> semantic_equal (ParenExpr (Ident ''x'')) (Ident ''x'')
   \<and> isSafe (ParenExpr (Ident ''x'')) \<and> isSafe (Ident ''x'')
   \<and> warnings (ctx (checkBinaryExpr (new_dupSubExprChecker no_types)
                       (ParenExpr (Ident ''x'')) LSS (Ident ''x''))) = []"
  by (simp add: new_dupSubExprChecker_def opSet_Init floatOpsSet_Init semantic_equal_def
      warnings_checkBinaryExpr_Init)



text \<open>
  C8. \<open>isSafe\<close> is true exactly on the shapes of the whitelist, and false on a call, on a
  pointer dereference and on a channel receive. So \<open>checkBinaryExpr\<close> leaves the checker
  as it is, whatever the types, on a binary expression with a call as an operand, such as
  \<^verbatim>\<open>f() == f()\<close>, and on \<^verbatim>\<open>(<-ch) < (<-ch)\<close>.
\<close>

theorem isSafe_whitelist:
  "isSafe e = safe_shape e
   \<and> \<not> isSafe (CallExpr f args) \<and> \<not> isSafe (StarExpr p) \<and> \<not> isSafe (UnaryExpr ARROW ch)
   \<and> checkBinaryExpr c (CallExpr f args) op (CallExpr f args) = c
   \<and> checkBinaryExpr c (ParenExpr (UnaryExpr ARROW ch)) LSS (ParenExpr (UnaryExpr ARROW ch)) = c"
  by (simp add: isSafe_safe_shape [symmetric] checkBinaryExpr_def)

theorem isSafe_whitelist_witness:
  "isSafe (IndexExpr (SelectorExpr (Ident ''a'') ''b'') (Ident ''i''))
   \<and> safe_shape (IndexExpr (SelectorExpr (Ident ''a'') ''b'') (Ident ''i''))
   \<and> checkBinaryExpr (new_dupSubExprChecker no_types)
        (CallExpr (Ident ''f'') []) EQL (CallExpr (Ident ''f'') [])
      = new_dupSubExprChecker no_types
   \<and> checkBinaryExpr (new_dupSubExprChecker no_types)
        (ParenExpr (UnaryExpr ARROW (Ident ''ch''))) LSS (ParenExpr (UnaryExpr ARROW (Ident ''ch'')))
      = new_dupSubExprChecker no_types"
  using
    isSafe_whitelist
      [of "IndexExpr (SelectorExpr (Ident ''a'') ''b'') (Ident ''i'')" "Ident ''f''" "[]"
          "Ident ''p''" "Ident ''ch''" "new_dupSubExprChecker no_types" EQL]
  by simp

text \<open>
  C10. \<open>resultIsFloat\<close> is true exactly when the type oracle gives a \<^verbatim>\<open>*types.Basic\<close> whose
  flags have \<^verbatim>\<open>IsFloat\<close>. A defined type over a float is not a \<^verbatim>\<open>*types.Basic\<close>, so
  \<open>resultIsFloat\<close> is false for it; and whenever the left operand's type is not a
  \<^verbatim>\<open>*types.Basic\<close>, a duplicated safe operand under \<^verbatim>\<open>==\<close>, \<^verbatim>\<open>!=\<close>, \<^verbatim>\<open><=\<close>, \<^verbatim>\<open>>=\<close>, \<^verbatim>\<open>/\<close> or
  \<^verbatim>\<open>-\<close> is flagged.
\<close>

theorem resultIsFloat_basic_only:
  "resultIsFloat c e = (\<exists>info. typesInfo (ctx c) e = Some (Basic info) \<and> and info IsFloat \<noteq> 0)
   \<and> (typesInfo (ctx c) e = Some (Named name (Basic IsFloat)) \<longrightarrow> \<not> resultIsFloat c e)
   \<and> ((\<forall>info. typesInfo (ctx c) e \<noteq> Some (Basic info)) \<and> isSafe e
        \<and> op \<in> {EQL, NEQ, LEQ, GEQ, QUO, SUB} \<longrightarrow>
      warnings (ctx (checkBinaryExpr (dupSubExpr_Init c) e op e)) =
        warnings (ctx c) @ [Warning (BinaryExpr e op e) dup_message [TokenArg op]])"
proof -
  have iff: "resultIsFloat c e =
      (\<exists>info. typesInfo (ctx c) e = Some (Basic info) \<and> and info IsFloat \<noteq> 0)"
    by (auto simp: resultIsFloat_def split: option.splits go_type.splits)
  have nonbasic: "\<not> resultIsFloat c e" if "\<forall>info. typesInfo (ctx c) e \<noteq> Some (Basic info)"
    using that iff by simp
  show ?thesis
    using iff nonbasic by (auto simp: warnings_checkBinaryExpr_Init)
qed

theorem resultIsFloat_basic_only_witness:
  "resultIsFloat (new_dupSubExprChecker (\<lambda>e. Some (Basic IsFloat))) (Ident ''x'')
   \<and> \<not> resultIsFloat (new_dupSubExprChecker (\<lambda>e. Some (Named ''Celsius'' (Basic IsFloat))))
        (Ident ''x'')
   \<and> warnings (ctx (checkBinaryExpr
        (new_dupSubExprChecker (\<lambda>e. Some (Named ''Celsius'' (Basic IsFloat))))
        (Ident ''x'') EQL (Ident ''x'')))
     = [Warning (BinaryExpr (Ident ''x'') EQL (Ident ''x'')) dup_message [TokenArg EQL]]"
  unfolding new_dupSubExprChecker_def
  using
    resultIsFloat_basic_only
      [of "dupSubExpr_Init \<lparr>ctx = \<lparr>typesInfo = (\<lambda>e. Some (Basic IsFloat)), warnings = []\<rparr>,
             opSet = Map.empty, floatOpsSet = Map.empty\<rparr>" "Ident ''x''" "''Celsius''" EQL]
    resultIsFloat_basic_only
      [of "\<lparr>ctx = \<lparr>typesInfo = (\<lambda>e. Some (Named ''Celsius'' (Basic IsFloat))), warnings = []\<rparr>,
             opSet = Map.empty, floatOpsSet = Map.empty\<rparr>" "Ident ''x''" "''Celsius''" EQL]
  by (simp add: ctx_dupSubExpr_Init resultIsFloat_Init IsFloat_def)

end
